theory Spec2Isabelle
  imports Main
begin

section \<open>JavaScript values and virtual nodes (VNode.ts)\<close>

text \<open>
  Values are the dynamically typed values the rendering engine inspects: primitives,
  opaque objects and user functions (both known by identity only), the runtime's own
  error objects, arrays, and the virtual node \<open>{type, props, children, key}\<close>.
  An error object, an array and a vnode are objects: each carries the identity it got
  when it was created (its first field), next to its content.
  Numbers are integers plus \<open>NaN\<close>; fractions play no part in the engine.
  A node's \<open>type\<close> is a tag name or a function, the latter known by identity.
\<close>

datatype errkind = TypeError | DOMException | HookError

datatype vtype = Tag string | Cls nat

datatype jsval =
    JUndefined
  | JNull
  | JBool bool
  | JNum int
  | JNaN
  | JStr string
  | JObj nat
  | JFun nat
  | ErrObj nat errkind
  | JArr nat "jsval list"
  | VN nat vtype "(string \<times> jsval) list" "jsval list" jsval

type_synonym props = "(string \<times> jsval) list"

text \<open>Truthiness (\<open>if (v)\<close>, \<open>v || d\<close>) and strict equality (\<open>===\<close>, \<open>!==\<close>).
  Strict equality compares primitives by value (\<open>NaN\<close> equals nothing) and objects by
  reference: two error objects, two arrays or two vnodes are equal iff they are the same
  object, whatever they hold.\<close>

fun truthy :: "jsval \<Rightarrow> bool" where
  "truthy JUndefined = False"
| "truthy JNull = False"
| "truthy (JBool b) = b"
| "truthy (JNum n) = (n \<noteq> 0)"
| "truthy JNaN = False"
| "truthy (JStr s) = (s \<noteq> [])"
| "truthy _ = True"

definition strict_eq :: "jsval \<Rightarrow> jsval \<Rightarrow> bool" where
  "strict_eq a b =
     (case a of
        JNaN \<Rightarrow> False
      | ErrObj i k \<Rightarrow> (case b of ErrObj j k' \<Rightarrow> i = j | _ \<Rightarrow> False)
      | JArr i xs \<Rightarrow> (case b of JArr j ys \<Rightarrow> i = j | _ \<Rightarrow> False)
      | VN i ty ps cs k \<Rightarrow> (case b of VN j ty' ps' cs' k' \<Rightarrow> i = j | _ \<Rightarrow> False)
      | _ \<Rightarrow> a = b)"

definition strict_neq :: "jsval \<Rightarrow> jsval \<Rightarrow> bool" where
  "strict_neq a b = (\<not> strict_eq a b)"

text \<open>Property read \<open>obj[name]\<close> on an object literal: \<open>undefined\<close> when absent.\<close>

definition get_prop :: "props \<Rightarrow> string \<Rightarrow> jsval" where
  "get_prop ps name = (case map_of ps name of None \<Rightarrow> JUndefined | Some v \<Rightarrow> v)"

text \<open>Writing a key of an object or a \<open>Map\<close> (\<open>aset\<close>): an existing key keeps its place. Object
  spread \<open>{...a, ...b}\<close>: keys of \<open>a\<close> keep their place and take the value \<open>b\<close> gives them; keys
  new in \<open>b\<close> follow.\<close>

fun aset :: "'k \<Rightarrow> 'v \<Rightarrow> ('k \<times> 'v) list \<Rightarrow> ('k \<times> 'v) list" where
  "aset k v [] = [(k, v)]"
| "aset k v ((k', v') # ps) = (if k = k' then (k, v) # ps else (k', v') # aset k v ps)"

definition spread :: "props \<Rightarrow> props \<Rightarrow> props" where
  "spread a b = foldl (\<lambda>acc (k, v). aset k v acc) a b"

text \<open>\<open>children.flat()\<close>: one level of array nesting is removed.\<close>

fun flat1 :: "jsval \<Rightarrow> jsval list" where
  "flat1 (JArr i xs) = xs"
| "flat1 v = [v]"

definition flat :: "jsval list \<Rightarrow> jsval list" where
  "flat xs = concat (map flat1 xs)"

text \<open>
  \<open>createElement(type, props, ...children)\<close>: \<open>props\<close> may be \<open>null\<close>; the \<open>key\<close>
  entry is split off, the children are flattened and \<open>null\<close>/\<open>undefined\<close> dropped, and the
  node's key is \<open>key || undefined\<close>. The call builds a new object; \<open>ident\<close> is the identity
  that object gets.
\<close>

definition createElement :: "nat \<Rightarrow> vtype \<Rightarrow> props option \<Rightarrow> jsval list \<Rightarrow> jsval" where
  "createElement ident ty ps children =
     (let p = (case ps of None \<Rightarrow> [] | Some q \<Rightarrow> q);
          key = get_prop p ''key'';
          restProps = filter (\<lambda>(k, v). k \<noteq> ''key'') p
      in VN ident ty restProps
            (filter (\<lambda>child. child \<noteq> JNull \<and> child \<noteq> JUndefined) (flat children))
            (if truthy key then key else JUndefined))"

text \<open>Field reads on an arbitrary value standing where a vnode is expected: a vnode has
  the field, any other non-nullish value reads \<open>undefined\<close>.\<close>

fun type_field :: "jsval \<Rightarrow> vtype option" where
  "type_field (VN i ty ps cs k) = Some ty"
| "type_field _ = None"

fun key_field :: "jsval \<Rightarrow> jsval" where
  "key_field (VN i ty ps cs k) = k"
| "key_field _ = JUndefined"

fun is_string :: "jsval \<Rightarrow> bool" where
  "is_string (JStr s) = True"
| "is_string _ = False"

text \<open>\<open>v == null\<close>: \<open>null\<close> or \<open>undefined\<close>.\<close>

fun nullish :: "jsval \<Rightarrow> bool" where
  "nullish JUndefined = True"
| "nullish JNull = True"
| "nullish _ = False"

section \<open>The world: display nodes, components, hooks, scheduler, contexts\<close>

text \<open>
  Every object the engine mutates lives in a store indexed by its identity: display
  nodes, component instances, hook records and contexts. A fresh object takes the next
  index. A reference is an index; one that names no object cannot come out of the code
  (objects are never freed), and where a function below meets one it throws a
  \<open>TypeError\<close>. The trace records each call into user code (a component's \<open>render\<close>, a
  lifecycle method, a function value) and each \<open>console.error\<close>.
\<close>

record dnode =
  dtag :: "string option"
  dtext :: string
  dattrs :: "(string \<times> string) list"
  dlisteners :: "(string \<times> jsval) list"
  dkids :: "nat list"
  dparent :: "nat option"

record comp =
  cclass :: nat
  cprops :: props
  cstate :: props
  domElement :: "nat option"
  prevVNode :: jsval
  isMounted :: bool
  errorBoundary :: "nat option"
  hooksArr :: "(nat \<times> nat) list option"

record hook =
  htype :: string
  hvalue :: jsval
  hdeps :: "jsval list option"
  hcleanup :: jsval

record ctx =
  currentValue :: jsval
  subscribers :: "nat list"

datatype callback =
    SetStateCb nat props jsval
  | ForceUpdateCb nat jsval

datatype lifecycle = WillUpdate | DidUpdate | DidMount | DidCatch

datatype event =
    Render nat
  | Lifecycle nat lifecycle
  | Call nat "jsval list"
  | ConsoleError jsval

record world =
  nodes :: "dnode list"
  comps :: "comp list"
  hookHeap :: "hook list"
  ctxs :: "ctx list"
  currentErrorBoundary :: "nat option"
  batchedCallbacks :: "(nat \<times> callback) list"
  isBatchingUpdates :: bool
  nextCallback :: nat
  currentComponent :: "nat option"
  currentHookIndex :: nat
  eventHandlers :: "((string \<times> nat option) \<times> jsval) list"
  delegatedEvents :: "string list"
  nextObject :: nat
  trace :: "event list"

text \<open>A call ends by returning, by throwing, or not at all within the fuel given.\<close>

datatype 'a outcome = Timeout | Throw jsval world | Return 'a world

definition bind :: "'a outcome \<Rightarrow> ('a \<Rightarrow> world \<Rightarrow> 'b outcome) \<Rightarrow> 'b outcome" where
  "bind m f = (case m of Timeout \<Rightarrow> Timeout | Throw e w \<Rightarrow> Throw e w | Return a w \<Rightarrow> f a w)"

text \<open>\<open>try { m } catch (e) { h e }\<close> and \<open>try { m } finally { f }\<close>.\<close>

definition try_catch :: "'a outcome \<Rightarrow> (jsval \<Rightarrow> world \<Rightarrow> 'a outcome) \<Rightarrow> 'a outcome" where
  "try_catch m h = (case m of Throw e w \<Rightarrow> h e w | r \<Rightarrow> r)"

definition try_finally :: "'a outcome \<Rightarrow> (world \<Rightarrow> unit outcome) \<Rightarrow> 'a outcome" where
  "try_finally m f =
     (case m of
        Timeout \<Rightarrow> Timeout
      | Return a w \<Rightarrow> bind (f w) (\<lambda>u w'. Return a w')
      | Throw e w \<Rightarrow> bind (f w) (\<lambda>u w'. Throw e w'))"

text \<open>The runtime throws an error object of its own: a new object each time.\<close>

definition throwError :: "errkind \<Rightarrow> world \<Rightarrow> 'a outcome" where
  "throwError k w = Throw (ErrObj (nextObject w) k) (w\<lparr>nextObject := Suc (nextObject w)\<rparr>)"

definition emit :: "event \<Rightarrow> world \<Rightarrow> world" where
  "emit ev w = w\<lparr>trace := trace w @ [ev]\<rparr>"

definition nth_opt :: "'a list \<Rightarrow> nat \<Rightarrow> 'a option" where
  "nth_opt xs i = (if i < length xs then Some (xs ! i) else None)"

section \<open>User code and platform primitives\<close>

text \<open>
  The application's code is a parameter. A class is one of: a plain \<open>Component\<close> subclass
  (its \<open>render\<close> reads \<open>this.props\<close> and \<open>this.state\<close> and returns or throws), a
  \<open>FunctionalComponent\<close> subclass (its \<open>renderFunction\<close> calls hooks, so it acts on the
  world), an \<open>ErrorBoundary\<close> subclass (it supplies \<open>fallbackRender\<close>), the module's own
  \<open>ContextProvider\<close> of a context, or a function that is no component class at all (an
  arrow function such as \<open>Context.Provider\<close>). The optional lifecycle methods a user class
  defines are known by name: calling one is recorded in the trace and returns.
  Functions held as values (\<open>JFun k\<close>) are looked up in the table \<open>funs\<close>: a call is recorded
  in the trace and returns a value or throws. \<open>jsString\<close> is the platform's \<open>String(value)\<close>.
\<close>

datatype ckind = ClassK | FunctionalK | BoundaryK | ProviderK nat | NotComponent

record cls =
  ckind :: ckind
  initState :: "props \<Rightarrow> props"
  renderM :: "props \<Rightarrow> props \<Rightarrow> jsval + jsval"
  renderFunction :: "nat \<Rightarrow> world \<Rightarrow> jsval outcome"
  fallbackRender :: "jsval \<Rightarrow> jsval + jsval"
  shouldComponentUpdate :: "(props \<Rightarrow> props \<Rightarrow> jsval) option"
  hasHook :: "lifecycle \<Rightarrow> bool"

type_synonym funtable = "nat \<Rightarrow> jsval list \<Rightarrow> jsval + jsval"

record env =
  classes :: "nat \<Rightarrow> cls"
  funs :: funtable
  jsString :: "jsval \<Rightarrow> string"

definition call :: "funtable \<Rightarrow> jsval \<Rightarrow> jsval list \<Rightarrow> world \<Rightarrow> jsval outcome" where
  "call F f args w =
     (case f of
        JFun k \<Rightarrow>
          (case F k args of
             Inl e \<Rightarrow> Throw e (emit (Call k args) w)
           | Inr v \<Rightarrow> Return v (emit (Call k args) w))
      | _ \<Rightarrow> throwError TypeError w)"

text \<open>\<open>callback?.()\<close>\<close>

definition optional_call :: "funtable \<Rightarrow> jsval \<Rightarrow> world \<Rightarrow> unit outcome" where
  "optional_call F f w =
     (if nullish f then Return () w else bind (call F f [] w) (\<lambda>r w'. Return () w'))"

section \<open>Update scheduler (BatchUpdate.ts)\<close>

text \<open>
  A scheduled callback is a closure made by \<open>setState\<close> or \<open>forceUpdate\<close>; it is paired
  with the identity it got when it was created, which is what the pending \<open>Set\<close> compares.
  How a callback runs is the parameter \<open>R\<close>, closed over the rest of the engine below.
\<close>

type_synonym runner = "callback \<Rightarrow> world \<Rightarrow> unit outcome"

definition runImmediate :: "runner \<Rightarrow> callback \<Rightarrow> world \<Rightarrow> unit outcome" where
  "runImmediate R cb w = try_catch (R cb w) (\<lambda>error w'. Return () (emit (ConsoleError error) w'))"

definition set_add :: "nat \<times> callback \<Rightarrow> (nat \<times> callback) list \<Rightarrow> (nat \<times> callback) list" where
  "set_add c cs = (if fst c \<in> fst ` set cs then cs else cs @ [c])"

definition scheduleUpdate :: "runner \<Rightarrow> nat \<times> callback \<Rightarrow> world \<Rightarrow> unit outcome" where
  "scheduleUpdate R c w =
     (if isBatchingUpdates w
      then Return () (w\<lparr>batchedCallbacks := set_add c (batchedCallbacks w)\<rparr>)
      else runImmediate R (snd c) w)"

definition batchStart :: "world \<Rightarrow> world" where
  "batchStart w = w\<lparr>isBatchingUpdates := True\<rparr>"

fun runEach :: "runner \<Rightarrow> (nat \<times> callback) list \<Rightarrow> world \<Rightarrow> unit outcome" where
  "runEach R [] w = Return () w"
| "runEach R (c # cs) w = bind (runImmediate R (snd c) w) (\<lambda>u w'. runEach R cs w')"

definition flush :: "runner \<Rightarrow> world \<Rightarrow> unit outcome" where
  "flush R w =
     (if length (batchedCallbacks w) = 0 then Return () w
      else let callbacks = batchedCallbacks w
           in runEach R callbacks (w\<lparr>batchedCallbacks := []\<rparr>))"

definition batchEnd :: "runner \<Rightarrow> world \<Rightarrow> unit outcome" where
  "batchEnd R w = flush R (w\<lparr>isBatchingUpdates := False\<rparr>)"

text \<open>\<open>BatchUpdate.wrap(fn)\<close>, applied: the wrapped function is any action on the world.\<close>

definition wrap :: "runner \<Rightarrow> (world \<Rightarrow> 'a outcome) \<Rightarrow> world \<Rightarrow> 'a outcome" where
  "wrap R fn w = try_finally (fn (batchStart w)) (batchEnd R)"

section \<open>Display nodes (the platform's DOM)\<close>

definition node_upd :: "nat \<Rightarrow> (dnode \<Rightarrow> dnode) \<Rightarrow> world \<Rightarrow> world" where
  "node_upd d f w = (if d < length (nodes w) then w\<lparr>nodes := (nodes w)[d := f (nodes w ! d)]\<rparr> else w)"

definition createTextNode :: "string \<Rightarrow> world \<Rightarrow> nat \<times> world" where
  "createTextNode s w =
     (length (nodes w),
      w\<lparr>nodes := nodes w @ [\<lparr>dtag = None, dtext = s, dattrs = [], dlisteners = [], dkids = [],
                              dparent = None\<rparr>]\<rparr>)"

definition createElementNode :: "string \<Rightarrow> world \<Rightarrow> nat \<times> world" where
  "createElementNode t w =
     (length (nodes w),
      w\<lparr>nodes := nodes w @ [\<lparr>dtag = Some t, dtext = [], dattrs = [], dlisteners = [], dkids = [],
                              dparent = None\<rparr>]\<rparr>)"

definition childNodes :: "world \<Rightarrow> nat \<Rightarrow> nat list" where
  "childNodes w d = (case nth_opt (nodes w) d of None \<Rightarrow> [] | Some n \<Rightarrow> dkids n)"

definition parentNode :: "world \<Rightarrow> nat \<Rightarrow> nat option" where
  "parentNode w d = (case nth_opt (nodes w) d of None \<Rightarrow> None | Some n \<Rightarrow> dparent n)"

definition is_element :: "world \<Rightarrow> nat \<Rightarrow> bool" where
  "is_element w d = (case nth_opt (nodes w) d of None \<Rightarrow> False | Some n \<Rightarrow> dtag n \<noteq> None)"

text \<open>A node leaves its parent before it is put anywhere else.\<close>

definition detach :: "nat \<Rightarrow> world \<Rightarrow> world" where
  "detach x w =
     (case parentNode w x of
        None \<Rightarrow> w
      | Some p \<Rightarrow> node_upd x (\<lambda>n. n\<lparr>dparent := None\<rparr>)
                    (node_upd p (\<lambda>n. n\<lparr>dkids := removeAll x (dkids n)\<rparr>) w))"

definition appendChild :: "nat \<Rightarrow> nat \<Rightarrow> world \<Rightarrow> unit outcome" where
  "appendChild p x w =
     (if \<not> is_element w p then throwError DOMException w
      else Return ()
             (node_upd x (\<lambda>n. n\<lparr>dparent := Some p\<rparr>)
               (node_upd p (\<lambda>n. n\<lparr>dkids := dkids n @ [x]\<rparr>) (detach x w))))"

fun insert_before :: "nat \<Rightarrow> nat \<Rightarrow> nat list \<Rightarrow> nat list" where
  "insert_before x r [] = [x]"
| "insert_before x r (k # ks) = (if k = r then x # k # ks else k # insert_before x r ks)"

text \<open>\<open>parent.insertBefore(node, ref)\<close>: \<open>node\<close> must be a node (a \<open>TypeError\<close> otherwise); a
  missing \<open>ref\<close> appends; \<open>ref\<close> must be a child of \<open>parent\<close>; inserting a node before
  itself leaves it where it is.\<close>

definition insertBefore :: "nat \<Rightarrow> nat option \<Rightarrow> nat option \<Rightarrow> world \<Rightarrow> unit outcome" where
  "insertBefore p node ref w =
     (case node of
        None \<Rightarrow> throwError TypeError w
      | Some x \<Rightarrow>
          (case ref of
             None \<Rightarrow> appendChild p x w
           | Some r \<Rightarrow>
               if \<not> is_element w p then throwError DOMException w
               else if r \<notin> set (childNodes w p) then throwError DOMException w
               else if x = r then Return () w
               else Return ()
                      (node_upd x (\<lambda>n. n\<lparr>dparent := Some p\<rparr>)
                        (node_upd p (\<lambda>n. n\<lparr>dkids := insert_before x r (dkids n)\<rparr>)
                          (detach x w)))))"

text \<open>\<open>dom.parentNode?.replaceChild(newElement, dom)\<close>\<close>

definition replaceInParent :: "nat \<Rightarrow> nat \<Rightarrow> world \<Rightarrow> world" where
  "replaceInParent newElement d w =
     (case parentNode w d of
        None \<Rightarrow> w
      | Some p \<Rightarrow>
          (let w1 = detach newElement w
           in node_upd d (\<lambda>n. n\<lparr>dparent := None\<rparr>)
                (node_upd newElement (\<lambda>n. n\<lparr>dparent := Some p\<rparr>)
                  (node_upd p (\<lambda>n. n\<lparr>dkids := map (\<lambda>k. if k = d then newElement else k) (dkids n)\<rparr>)
                     w1))))"

definition removeChild :: "nat \<Rightarrow> nat \<Rightarrow> world \<Rightarrow> world" where
  "removeChild p x w =
     node_upd p (\<lambda>n. n\<lparr>dkids := remove1 x (dkids n)\<rparr>) (node_upd x (\<lambda>n. n\<lparr>dparent := None\<rparr>) w)"

definition set_attr :: "nat \<Rightarrow> string \<Rightarrow> string \<Rightarrow> world \<Rightarrow> world" where
  "set_attr d name v w = node_upd d (\<lambda>n. n\<lparr>dattrs := aset name v (dattrs n)\<rparr>) w"

definition add_listener :: "nat \<Rightarrow> string \<Rightarrow> jsval \<Rightarrow> world \<Rightarrow> world" where
  "add_listener d eventName f w = node_upd d (\<lambda>n. n\<lparr>dlisteners := dlisteners n @ [(eventName, f)]\<rparr>) w"

text \<open>\<open>dom.setAttribute\<close> and \<open>dom.removeAttribute\<close> where \<open>dom\<close> came out of
  \<open>childNodes[i]\<close>: it may be \<open>undefined\<close> or a text node, which has neither method.
  The attribute name is stored as it is given and is taken to be a valid name: the
  platform's lower-casing of names and its exception on an invalid name are left out.\<close>

definition setAttribute :: "env \<Rightarrow> nat option \<Rightarrow> string \<Rightarrow> jsval \<Rightarrow> world \<Rightarrow> unit outcome" where
  "setAttribute E domEl name v w =
     (case domEl of
        None \<Rightarrow> throwError TypeError w
      | Some d \<Rightarrow> if is_element w d then Return () (set_attr d name (jsString E v) w)
                  else throwError TypeError w)"

definition removeAttribute :: "nat option \<Rightarrow> string \<Rightarrow> world \<Rightarrow> unit outcome" where
  "removeAttribute domEl name w =
     (case domEl of
        None \<Rightarrow> throwError TypeError w
      | Some d \<Rightarrow> if is_element w d
                  then Return () (node_upd d (\<lambda>n. n\<lparr>dattrs := filter (\<lambda>(k, v). k \<noteq> name) (dattrs n)\<rparr>) w)
                  else throwError TypeError w)"

text \<open>\<open>name.startsWith('on')\<close> and \<open>name.toLowerCase().substring(2)\<close>\<close>

definition lower_char :: "char \<Rightarrow> char" where
  "lower_char c = (let n = (of_char c :: nat) in if 65 \<le> n \<and> n \<le> 90 then char_of (n + 32) else c)"

definition startsWith_on :: "string \<Rightarrow> bool" where
  "startsWith_on name = (take 2 name = ''on'')"

definition eventNameOf :: "string \<Rightarrow> string" where
  "eventNameOf name = drop 2 (map lower_char name)"

section \<open>Delegated events (EventDelegator.ts)\<close>

text \<open>The handler table \<open>event kind \<rightarrow> (element \<rightarrow> handler)\<close> is kept under the pair of
  both keys; the element key may be \<open>undefined\<close>.\<close>

definition EventDelegator_addEventListener :: "nat option \<Rightarrow> string \<Rightarrow> jsval \<Rightarrow> world \<Rightarrow> world" where
  "EventDelegator_addEventListener element eventType handler w =
     (let w1 = (if eventType \<in> set (delegatedEvents w) then w
                else w\<lparr>delegatedEvents := delegatedEvents w @ [eventType]\<rparr>)
      in w1\<lparr>eventHandlers := aset (eventType, element) handler (eventHandlers w1)\<rparr>)"

definition EventDelegator_removeEventListener :: "nat option \<Rightarrow> string \<Rightarrow> world \<Rightarrow> world" where
  "EventDelegator_removeEventListener element eventType w =
     w\<lparr>eventHandlers := filter (\<lambda>(k, h). k \<noteq> (eventType, element)) (eventHandlers w)\<rparr>"


section \<open>Component lifecycle container (Component.ts, FunctionalComponent.ts, ErrorBoundary.ts)\<close>

definition comp_upd :: "nat \<Rightarrow> (comp \<Rightarrow> comp) \<Rightarrow> world \<Rightarrow> world" where
  "comp_upd c f w = (if c < length (comps w) then w\<lparr>comps := (comps w)[c := f (comps w ! c)]\<rparr> else w)"

definition hook_upd :: "nat \<Rightarrow> (hook \<Rightarrow> hook) \<Rightarrow> world \<Rightarrow> world" where
  "hook_upd h f w =
     (if h < length (hookHeap w) then w\<lparr>hookHeap := (hookHeap w)[h := f (hookHeap w ! h)]\<rparr> else w)"

definition ctx_upd :: "nat \<Rightarrow> (ctx \<Rightarrow> ctx) \<Rightarrow> world \<Rightarrow> world" where
  "ctx_upd x f w = (if x < length (ctxs w) then w\<lparr>ctxs := (ctxs w)[x := f (ctxs w ! x)]\<rparr> else w)"

definition setCurrentComponent :: "nat option \<Rightarrow> world \<Rightarrow> world" where
  "setCurrentComponent component w = w\<lparr>currentComponent := component, currentHookIndex := 0\<rparr>"

definition getDerivedStateFromError :: "jsval \<Rightarrow> props" where
  "getDerivedStateFromError error = [(''hasError'', JBool True), (''error'', error)]"

text \<open>
  \<open>new ComponentClass(props)\<close>: a function that is no class throws; the constructors set
  \<open>props\<close> and the initial \<open>state\<close> (an error boundary's is
  \<open>{hasError: false, error: undefined}\<close>); only a functional component has \<open>_hooks\<close>.
\<close>

definition new_component :: "env \<Rightarrow> nat \<Rightarrow> props \<Rightarrow> world \<Rightarrow> nat outcome" where
  "new_component E k ps w =
     (case ckind (classes E k) of
        NotComponent \<Rightarrow> throwError TypeError w
      | kd \<Rightarrow>
          Return (length (comps w))
            (w\<lparr>comps := comps w @
                 [\<lparr>cclass = k, cprops = ps,
                   cstate = (case kd of
                               BoundaryK \<Rightarrow> [(''hasError'', JBool False), (''error'', JUndefined)]
                             | ProviderK x \<Rightarrow> []
                             | _ \<Rightarrow> initState (classes E k) ps),
                   domElement = None, prevVNode = JNull, isMounted = False,
                   errorBoundary = None,
                   hooksArr = (if kd = FunctionalK then Some [] else None)\<rparr>]\<rparr>))"

text \<open>
  \<open>component.render()\<close>, by the class of the instance: the user's \<open>render\<close>;
  \<open>FunctionalComponent.render\<close> (the render cursor is set, \<open>renderFunction\<close> runs, the
  cursor is cleared); \<open>ErrorBoundary.render\<close>; \<open>ContextProvider.render\<close>.
\<close>

definition render :: "env \<Rightarrow> nat \<Rightarrow> world \<Rightarrow> jsval outcome" where
  "render E c w =
     (case nth_opt (comps w) c of
        None \<Rightarrow> throwError TypeError w
      | Some inst \<Rightarrow>
          (let cl = classes E (cclass inst); w1 = emit (Render c) w
           in case ckind cl of
                ClassK \<Rightarrow>
                  (case renderM cl (cprops inst) (cstate inst) of
                     Inl e \<Rightarrow> Throw e w1
                   | Inr v \<Rightarrow> Return v w1)
              | FunctionalK \<Rightarrow>
                  bind (renderFunction cl c (setCurrentComponent (Some c) w1))
                    (\<lambda>result w2. Return result (setCurrentComponent None w2))
              | BoundaryK \<Rightarrow>
                  if truthy (get_prop (cstate inst) ''hasError'')
                  then (case fallbackRender cl (get_prop (cstate inst) ''error'') of
                          Inl e \<Rightarrow> Throw e w1
                        | Inr v \<Rightarrow> Return v w1)
                  else Return (get_prop (cprops inst) ''children'') w1
              | ProviderK x \<Rightarrow> Return (get_prop (cprops inst) ''children'') w1
              | NotComponent \<Rightarrow> throwError TypeError w))"

definition setState :: "runner \<Rightarrow> nat \<Rightarrow> props \<Rightarrow> jsval \<Rightarrow> world \<Rightarrow> unit outcome" where
  "setState R c newState callback w =
     (case nth_opt (comps w) c of
        None \<Rightarrow> throwError TypeError w
      | Some inst \<Rightarrow>
          (let prevState = cstate inst;
               w1 = comp_upd c (\<lambda>k. k\<lparr>cstate := spread (cstate k) newState\<rparr>) w
           in scheduleUpdate R (nextCallback w1, SetStateCb c prevState callback)
                (w1\<lparr>nextCallback := Suc (nextCallback w1)\<rparr>)))"

definition forceUpdate :: "runner \<Rightarrow> nat \<Rightarrow> jsval \<Rightarrow> world \<Rightarrow> unit outcome" where
  "forceUpdate R c callback w =
     (case nth_opt (comps w) c of
        None \<Rightarrow> throwError TypeError w
      | Some inst \<Rightarrow>
          if isMounted inst
          then scheduleUpdate R (nextCallback w, ForceUpdateCb c callback)
                 (w\<lparr>nextCallback := Suc (nextCallback w)\<rparr>)
          else Return () w)"

text \<open>\<open>handleError\<close> forwards to the instance's boundary, whose own (inherited)
  \<open>handleError\<close> forwards again; with no boundary it rethrows. The chain is followed for
  at most one step more than there are instances.\<close>

primrec handleErrorFrom :: "nat \<Rightarrow> nat \<Rightarrow> jsval \<Rightarrow> world \<Rightarrow> unit outcome" where
  "handleErrorFrom 0 c error w = Timeout"
| "handleErrorFrom (Suc n) c error w =
     (case nth_opt (comps w) c of
        None \<Rightarrow> throwError TypeError w
      | Some inst \<Rightarrow>
          (case errorBoundary inst of
             None \<Rightarrow> Throw error w
           | Some b \<Rightarrow> handleErrorFrom n b error w))"

definition handleError :: "nat \<Rightarrow> jsval \<Rightarrow> world \<Rightarrow> unit outcome" where
  "handleError c error w = handleErrorFrom (Suc (length (comps w))) c error w"

section \<open>Context channel (Context.ts)\<close>

definition getValue :: "world \<Rightarrow> nat \<Rightarrow> jsval" where
  "getValue w x = (case nth_opt (ctxs w) x of None \<Rightarrow> JUndefined | Some c \<Rightarrow> currentValue c)"

definition subscribersOf :: "world \<Rightarrow> nat \<Rightarrow> nat list" where
  "subscribersOf w x = (case nth_opt (ctxs w) x of None \<Rightarrow> [] | Some c \<Rightarrow> subscribers c)"

definition subscribe :: "nat \<Rightarrow> nat \<Rightarrow> world \<Rightarrow> world" where
  "subscribe x component w =
     ctx_upd x (\<lambda>c. c\<lparr>subscribers := (if component \<in> set (subscribers c) then subscribers c
                                        else subscribers c @ [component])\<rparr>) w"

fun forceUpdateEach :: "runner \<Rightarrow> nat list \<Rightarrow> world \<Rightarrow> unit outcome" where
  "forceUpdateEach R [] w = Return () w"
| "forceUpdateEach R (component # rest) w =
     bind (forceUpdate R component JUndefined w) (\<lambda>u w'. forceUpdateEach R rest w')"

text \<open>\<open>notify\<close> walks the subscriber set as it stands when the walk begins: nothing the
  engine does during the walk subscribes or unsubscribes a component (only a
  \<open>ContextConsumer\<close>'s own mount and unmount hooks do, and they are not part of it).\<close>

definition notify :: "runner \<Rightarrow> nat \<Rightarrow> world \<Rightarrow> unit outcome" where
  "notify R x w = forceUpdateEach R (subscribersOf w x) w"

definition setValue :: "runner \<Rightarrow> nat \<Rightarrow> jsval \<Rightarrow> world \<Rightarrow> unit outcome" where
  "setValue R x v w = notify R x (ctx_upd x (\<lambda>c. c\<lparr>currentValue := v\<rparr>) w)"

text \<open>\<open>ContextProvider.updateContextValue\<close> of the provider instance \<open>p\<close> of context \<open>x\<close>.\<close>

definition updateContextValue :: "runner \<Rightarrow> nat \<Rightarrow> nat \<Rightarrow> world \<Rightarrow> unit outcome" where
  "updateContextValue R p x w =
     (case nth_opt (comps w) p of
        None \<Rightarrow> throwError TypeError w
      | Some inst \<Rightarrow>
          (let oldValue = getValue w x; newValue = get_prop (cprops inst) ''value''
           in if strict_neq oldValue newValue then setValue R x newValue w else Return () w))"

text \<open>\<open>Context.Provider\<close>, the arrow function, called with \<open>props\<close>:
  \<open>new ContextProvider(props, this).render()\<close>. It builds an instance of the context's
  \<open>ContextProvider\<close> class (\<open>k\<close> in the class table) and calls its \<open>render\<close>, nothing else;
  the instance is dropped. (As a function it is no class: \<open>new\<close> on it throws.)\<close>

definition Provider :: "env \<Rightarrow> nat \<Rightarrow> props \<Rightarrow> world \<Rightarrow> jsval outcome" where
  "Provider E k ps w = bind (new_component E k ps w) (\<lambda>c w1. render E c w1)"

text \<open>
  \<open>this.componentWillUpdate?.(...)\<close>, \<open>this.componentDidUpdate?.(...)\<close>,
  \<open>this.componentDidMount?.()\<close>: a \<open>ContextProvider\<close> defines the last two as
  \<open>updateContextValue\<close>; a user class has the ones it defines.
\<close>

definition lifecycleHook :: "env \<Rightarrow> runner \<Rightarrow> nat \<Rightarrow> lifecycle \<Rightarrow> world \<Rightarrow> unit outcome" where
  "lifecycleHook E R c l w =
     (case nth_opt (comps w) c of
        None \<Rightarrow> throwError TypeError w
      | Some inst \<Rightarrow>
          (case ckind (classes E (cclass inst)) of
             ProviderK x \<Rightarrow>
               if l = DidMount \<or> l = DidUpdate then updateContextValue R c x w else Return () w
           | _ \<Rightarrow>
               if hasHook (classes E (cclass inst)) l then Return () (emit (Lifecycle c l) w)
               else Return () w))"

section \<open>Hooks runtime (hooks.ts)\<close>

text \<open>
  \<open>_hooks\<close> is a sparse array from slot index to hook object; hook objects live in the
  hook heap, so the setter a \<open>useState\<close> call returns and the array share one object.
  An instance without \<open>_hooks\<close> gives every hook call a fresh, unkept array.
\<close>

definition hooks_of :: "world \<Rightarrow> nat \<Rightarrow> (nat \<times> nat) list" where
  "hooks_of w c =
     (case nth_opt (comps w) c of
        None \<Rightarrow> []
      | Some inst \<Rightarrow> (case hooksArr inst of None \<Rightarrow> [] | Some a \<Rightarrow> a))"

definition alloc_hook :: "hook \<Rightarrow> world \<Rightarrow> nat \<times> world" where
  "alloc_hook h w = (length (hookHeap w), w\<lparr>hookHeap := hookHeap w @ [h]\<rparr>)"

definition store_hook :: "nat \<Rightarrow> nat \<Rightarrow> nat \<Rightarrow> world \<Rightarrow> world" where
  "store_hook c hookIndex h w =
     comp_upd c (\<lambda>k. k\<lparr>hooksArr := (case hooksArr k of None \<Rightarrow> None
                                     | Some a \<Rightarrow> Some (aset hookIndex h a))\<rparr>) w"

text \<open>\<open>useState(initialValue)\<close> returns the value and the setter; the setter is known by the
  hook object it closes over.\<close>

definition useState :: "funtable \<Rightarrow> jsval \<Rightarrow> world \<Rightarrow> (jsval \<times> nat) outcome" where
  "useState F initialValue w =
     (case currentComponent w of
        None \<Rightarrow> throwError HookError w
      | Some c \<Rightarrow>
          (let hooks = hooks_of w c;
               hookIndex = currentHookIndex w;
               w1 = w\<lparr>currentHookIndex := Suc hookIndex\<rparr>
           in case map_of hooks hookIndex of
                Some h \<Rightarrow>
                  (case nth_opt (hookHeap w1) h of
                     None \<Rightarrow> throwError TypeError w1
                   | Some hk \<Rightarrow> Return (hvalue hk, h) w1)
              | None \<Rightarrow>
                  bind (case initialValue of
                          JFun k \<Rightarrow> call F initialValue [] w1
                        | _ \<Rightarrow> Return initialValue w1)
                    (\<lambda>v w2.
                       let (h, w3) = alloc_hook \<lparr>htype = ''state'', hvalue = v, hdeps = None,
                                                 hcleanup = JUndefined\<rparr> w2
                       in Return (v, h) (store_hook c hookIndex h w3))))"

text \<open>The setter: it reads the module's \<open>currentComponent\<close> when it is called.\<close>

definition stateSetter :: "funtable \<Rightarrow> runner \<Rightarrow> nat \<Rightarrow> jsval \<Rightarrow> world \<Rightarrow> unit outcome" where
  "stateSetter F R h newValue w =
     (case nth_opt (hookHeap w) h of
        None \<Rightarrow> throwError TypeError w
      | Some hk \<Rightarrow>
          bind (case newValue of
                  JFun k \<Rightarrow> call F newValue [hvalue hk] w
                | _ \<Rightarrow> Return newValue w)
            (\<lambda>nextValue w1.
               if strict_neq nextValue (hvalue hk)
               then (let w2 = hook_upd h (\<lambda>k. k\<lparr>hvalue := nextValue\<rparr>) w1
                     in case currentComponent w2 of
                          None \<Rightarrow> Return () w2
                        | Some c \<Rightarrow> forceUpdate R c JUndefined w2)
               else Return () w1))"

text \<open>\<open>deps.some((dep, i) => dep !== hook.deps[i])\<close> and the decision of \<open>useEffect\<close>:
  \<open>hasNoDeps || hasChangedDeps\<close>.\<close>

definition someDepDiffers :: "jsval list \<Rightarrow> jsval list \<Rightarrow> bool" where
  "someDepDiffers deps stored =
     list_ex (\<lambda>i. strict_neq (deps ! i) (case nth_opt stored i of None \<Rightarrow> JUndefined | Some v \<Rightarrow> v))
       [0..<length deps]"

definition effectMustRun :: "jsval list option \<Rightarrow> jsval list option \<Rightarrow> bool" where
  "effectMustRun deps stored =
     (let hasNoDeps = (deps = None);
          hasChangedDeps =
            (case deps of
               None \<Rightarrow> True
             | Some ds \<Rightarrow>
                 (case stored of
                    None \<Rightarrow> True
                  | Some os \<Rightarrow> length ds \<noteq> length os \<or> someDepDiffers ds os))
      in hasNoDeps \<or> hasChangedDeps)"

definition useEffect :: "funtable \<Rightarrow> jsval \<Rightarrow> jsval list option \<Rightarrow> world \<Rightarrow> unit outcome" where
  "useEffect F effect deps w =
     (case currentComponent w of
        None \<Rightarrow> throwError HookError w
      | Some c \<Rightarrow>
          (let hooks = hooks_of w c;
               hookIndex = currentHookIndex w;
               w1 = w\<lparr>currentHookIndex := Suc hookIndex\<rparr>;
               (h, w2) = (case map_of hooks hookIndex of
                            Some h \<Rightarrow> (h, w1)
                          | None \<Rightarrow> alloc_hook \<lparr>htype = ''effect'', hvalue = JUndefined,
                                                 hdeps = None, hcleanup = JUndefined\<rparr> w1)
           in case nth_opt (hookHeap w2) h of
                None \<Rightarrow> throwError TypeError w2
              | Some hk \<Rightarrow>
                  if effectMustRun deps (hdeps hk)
                  then bind (if truthy (hcleanup hk)
                             then bind (call F (hcleanup hk) [] w2) (\<lambda>r w'. Return () w')
                             else Return () w2)
                         (\<lambda>u w3.
                            bind (call F effect [] w3)
                              (\<lambda>r w4.
                                 Return ()
                                   (store_hook c hookIndex h
                                      (hook_upd h (\<lambda>k. k\<lparr>hcleanup := r, hdeps := deps\<rparr>) w4))))
                  else Return () (store_hook c hookIndex h w2)))"


section \<open>Reconciliation engine (reconciler.ts)\<close>

text \<open>
  \<open>createDOMElement\<close> and \<open>updateDOMElement\<close> recurse through children and through what
  components render, which has no bound; both take fuel, one unit per level, and each
  level is written against the function one level down (\<open>create\<close>, \<open>update\<close>).
\<close>

type_synonym creator = "jsval \<Rightarrow> world \<Rightarrow> nat outcome"
type_synonym updater = "nat option \<Rightarrow> jsval \<Rightarrow> jsval \<Rightarrow> world \<Rightarrow> unit outcome"

text \<open>One entry of \<open>Object.entries(vnode.props)\<close> applied to the new element.\<close>

definition applyProp :: "env \<Rightarrow> nat \<Rightarrow> world \<Rightarrow> string \<times> jsval \<Rightarrow> world" where
  "applyProp E element w p =
     (let name = fst p; v = snd p
      in if name = ''className'' then set_attr element ''class'' (jsString E v) w
         else if startsWith_on name
         then (case v of
                 JFun k \<Rightarrow> add_listener element (eventNameOf name) v w
               | _ \<Rightarrow> w)
         else set_attr element name (jsString E v) w)"

fun appendChildren :: "creator \<Rightarrow> nat \<Rightarrow> jsval list \<Rightarrow> world \<Rightarrow> unit outcome" where
  "appendChildren create element [] w = Return () w"
| "appendChildren create element (child # rest) w =
     bind (create child w)
       (\<lambda>childElement w1.
          bind (appendChild element childElement w1)
            (\<lambda>u w2. appendChildren create element rest w2))"

definition handleErrorInBoundary :: "env \<Rightarrow> runner \<Rightarrow> creator \<Rightarrow> jsval \<Rightarrow> world \<Rightarrow> nat outcome" where
  "handleErrorInBoundary E R create error w =
     (case currentErrorBoundary w of
        None \<Rightarrow> Throw error w
      | Some b \<Rightarrow>
          bind (setState R b (getDerivedStateFromError error) JUndefined w)
            (\<lambda>u w1.
               case currentErrorBoundary w1 of
                 None \<Rightarrow> throwError TypeError w1
               | Some b' \<Rightarrow> bind (render E b' w1) (\<lambda>fallback w2. create fallback w2)))"

definition createComponent :: "env \<Rightarrow> runner \<Rightarrow> creator \<Rightarrow> nat \<Rightarrow> props \<Rightarrow> world \<Rightarrow> nat outcome" where
  "createComponent E R create k ps w =
     try_catch
       (bind (new_component E k ps w)
          (\<lambda>component w1.
             let w2 = (case currentErrorBoundary w1 of
                         None \<Rightarrow> w1
                       | Some b \<Rightarrow> comp_upd component (\<lambda>c. c\<lparr>errorBoundary := Some b\<rparr>) w1);
                 isBoundary = (ckind (classes E k) = BoundaryK);
                 w3 = (if isBoundary then w2\<lparr>currentErrorBoundary := Some component\<rparr> else w2)
             in bind (render E component w3)
                  (\<lambda>rendered w4.
                     bind (create rendered w4)
                       (\<lambda>element w5.
                          Return element
                            (if isBoundary then w5\<lparr>currentErrorBoundary := None\<rparr> else w5)))))
       (\<lambda>error w'.
          if currentErrorBoundary w' \<noteq> None then handleErrorInBoundary E R create error w'
          else Throw error w')"

definition createDOMElement_step :: "env \<Rightarrow> runner \<Rightarrow> creator \<Rightarrow> jsval \<Rightarrow> world \<Rightarrow> nat outcome" where
  "createDOMElement_step E R create vnode w =
     (case vnode of
        JStr s \<Rightarrow> (let (d, w1) = createTextNode s w in Return d w1)
      | JUndefined \<Rightarrow> throwError TypeError w
      | JNull \<Rightarrow> throwError TypeError w
      | VN ident ty ps children key \<Rightarrow>
          (case ty of
             Cls k \<Rightarrow> createComponent E R create k ps w
           | Tag t \<Rightarrow>
               (let (element, w1) = createElementNode t w;
                    w2 = foldl (applyProp E element) w1 ps
                in bind (appendChildren create element children w2)
                     (\<lambda>u w3. Return element w3)))
      | _ \<Rightarrow> (let (element, w1) = createElementNode ''undefined'' w
              in throwError TypeError w1))"

primrec createDOMElement :: "env \<Rightarrow> runner \<Rightarrow> nat \<Rightarrow> creator" where
  "createDOMElement E R 0 = (\<lambda>vnode w. Timeout)"
| "createDOMElement E R (Suc n) = createDOMElement_step E R (createDOMElement E R n)"

text \<open>\<open>updateProps\<close>: the two \<open>forEach\<close> loops, over the old keys and over the new entries.
  \<open>name in newProps\<close> is read on the own keys of \<open>newProps\<close>; names an object inherits
  (\<open>toString\<close> and the like) are left out.\<close>

fun removeOldProps :: "nat option \<Rightarrow> props \<Rightarrow> string list \<Rightarrow> world \<Rightarrow> unit outcome" where
  "removeOldProps domEl newProps [] w = Return () w"
| "removeOldProps domEl newProps (name # rest) w =
     bind (if name \<notin> fst ` set newProps
           then (if startsWith_on name
                 then Return () (EventDelegator_removeEventListener domEl (eventNameOf name) w)
                 else removeAttribute domEl name w)
           else Return () w)
       (\<lambda>u w1. removeOldProps domEl newProps rest w1)"

fun setNewProps :: "env \<Rightarrow> nat option \<Rightarrow> props \<Rightarrow> props \<Rightarrow> world \<Rightarrow> unit outcome" where
  "setNewProps E domEl oldProps [] w = Return () w"
| "setNewProps E domEl oldProps (p # rest) w =
     bind (if strict_neq (get_prop oldProps (fst p)) (snd p)
           then (if startsWith_on (fst p)
                 then Return () (EventDelegator_addEventListener domEl (eventNameOf (fst p)) (snd p) w)
                 else setAttribute E domEl (fst p) (snd p) w)
           else Return () w)
       (\<lambda>u w1. setNewProps E domEl oldProps rest w1)"

definition updateProps :: "env \<Rightarrow> nat option \<Rightarrow> props \<Rightarrow> props \<Rightarrow> world \<Rightarrow> unit outcome" where
  "updateProps E domEl oldProps newProps w =
     bind (removeOldProps domEl newProps (map fst oldProps) w)
       (\<lambda>u w1. setNewProps E domEl oldProps newProps w1)"

text \<open>\<open>updateChildren\<close>, first pass: the \<open>Map\<close> from key to \<open>{node, index}\<close> of the keyed old
  children. Reading \<open>.key\<close> of \<open>null\<close> or \<open>undefined\<close> throws (\<open>None\<close>).\<close>

type_synonym keymap = "(jsval \<times> (jsval \<times> nat)) list"

fun collectKeyed :: "jsval list \<Rightarrow> nat \<Rightarrow> keymap \<Rightarrow> keymap option" where
  "collectKeyed [] i m = Some m"
| "collectKeyed (child # rest) i m =
     (if nullish child then None
      else if \<not> is_string child \<and> \<not> nullish (key_field child)
      then collectKeyed rest (Suc i) (aset (key_field child) (child, i) m)
      else collectKeyed rest (Suc i) m)"

text \<open>The old child and old index paired with a new child: by key for a keyed new child
  (\<open>None\<close> when the key is not in the map: both stay \<open>undefined\<close>), by position otherwise.\<close>

definition findOld :: "keymap \<Rightarrow> jsval list \<Rightarrow> jsval \<Rightarrow> nat \<Rightarrow> (jsval \<times> nat) option" where
  "findOld oldKeyedChildren oldChildren newChild newIndex =
     (if \<not> is_string newChild \<and> \<not> nullish (key_field newChild)
      then map_of oldKeyedChildren (key_field newChild)
      else Some (case nth_opt oldChildren newIndex of None \<Rightarrow> JUndefined | Some v \<Rightarrow> v, newIndex))"

text \<open>Second pass, one new child at a time, \<open>lastIndex\<close> carried along.\<close>

fun updateChildren_loop ::
  "updater \<Rightarrow> creator \<Rightarrow> nat option \<Rightarrow> keymap \<Rightarrow> jsval list \<Rightarrow> jsval list \<Rightarrow> nat \<Rightarrow> nat \<Rightarrow> world
     \<Rightarrow> unit outcome" where
  "updateChildren_loop update create domEl oldKeyed oldChildren [] newIndex lastIndex w = Return () w"
| "updateChildren_loop update create domEl oldKeyed oldChildren (newChild # rest) newIndex lastIndex w =
     (if nullish newChild then throwError TypeError w
      else
        (case (case findOld oldKeyed oldChildren newChild newIndex of
                 None \<Rightarrow> None
               | Some (oldChild, oldIndex) \<Rightarrow>
                   if truthy oldChild then Some (oldChild, oldIndex) else None) of
           Some (oldChild, oldIndex) \<Rightarrow>
             bind (if oldIndex < lastIndex
                   then (case domEl of
                           None \<Rightarrow> throwError TypeError w
                         | Some d \<Rightarrow>
                             bind (insertBefore d (nth_opt (childNodes w d) oldIndex)
                                     (nth_opt (childNodes w d) newIndex) w)
                               (\<lambda>u w'. Return lastIndex w'))
                   else Return oldIndex w)
               (\<lambda>lastIndex' w1.
                  bind (if \<not> is_string oldChild \<and> \<not> is_string newChild
                        then (case domEl of
                                None \<Rightarrow> throwError TypeError w1
                              | Some d \<Rightarrow>
                                  update (nth_opt (childNodes w1 d) newIndex) oldChild newChild w1)
                        else Return () w1)
                    (\<lambda>u w2.
                       updateChildren_loop update create domEl oldKeyed oldChildren rest
                         (Suc newIndex) lastIndex' w2))
         | None \<Rightarrow>
             bind (create newChild w)
               (\<lambda>newElement w1.
                  bind (case domEl of
                          None \<Rightarrow> throwError TypeError w1
                        | Some d \<Rightarrow>
                            if newIndex < length (childNodes w1 d)
                            then insertBefore d (Some newElement) (nth_opt (childNodes w1 d) newIndex) w1
                            else appendChild d newElement w1)
                    (\<lambda>u w2.
                       updateChildren_loop update create domEl oldKeyed oldChildren rest
                         (Suc newIndex) lastIndex w2))))"

text \<open>\<open>while (dom.childNodes.length > n) dom.removeChild(dom.lastChild)\<close>\<close>

function trimChildren :: "nat \<Rightarrow> nat \<Rightarrow> world \<Rightarrow> world" where
  "trimChildren d n w =
     (if length (childNodes w d) > n
      then trimChildren d n (removeChild d (last (childNodes w d)) w)
      else w)"
  by pat_completeness auto

lemma childNodes_removeChild_last:
  "childNodes w d \<noteq> [] \<Longrightarrow>
   length (childNodes (removeChild d (last (childNodes w d)) w) d) < length (childNodes w d)"
  by (auto simp: childNodes_def removeChild_def node_upd_def nth_opt_def length_remove1
           nth_list_update split: option.splits if_splits dest: last_in_set)

termination trimChildren
  by (relation "measure (\<lambda>(d, n, w). length (childNodes w d))")
     (auto intro!: childNodes_removeChild_last)

declare trimChildren.simps [simp del]

definition updateChildren ::
  "updater \<Rightarrow> creator \<Rightarrow> nat option \<Rightarrow> jsval list \<Rightarrow> jsval list \<Rightarrow> world \<Rightarrow> unit outcome" where
  "updateChildren update create domEl oldChildren newChildren w =
     (case collectKeyed oldChildren 0 [] of
        None \<Rightarrow> throwError TypeError w
      | Some oldKeyedChildren \<Rightarrow>
          bind (updateChildren_loop update create domEl oldKeyedChildren oldChildren newChildren 0 0 w)
            (\<lambda>u w1.
               case domEl of
                 None \<Rightarrow> throwError TypeError w1
               | Some d \<Rightarrow> Return () (trimChildren d (length newChildren) w1)))"

definition updateDOMElement_step ::
  "env \<Rightarrow> creator \<Rightarrow> updater \<Rightarrow> nat option \<Rightarrow> jsval \<Rightarrow> jsval \<Rightarrow> world \<Rightarrow> unit outcome" where
  "updateDOMElement_step E create update domEl oldVNode newVNode w =
     (if nullish oldVNode \<or> nullish newVNode then throwError TypeError w
      else if type_field oldVNode \<noteq> type_field newVNode
      then bind (create newVNode w)
             (\<lambda>newElement w1.
                case domEl of
                  None \<Rightarrow> throwError TypeError w1
                | Some d \<Rightarrow> Return () (replaceInParent newElement d w1))
      else (case (oldVNode, newVNode) of
              (VN oid oty oldProps oldChildren okey, VN nid nty newProps newChildren nkey) \<Rightarrow>
                bind (updateProps E domEl oldProps newProps w)
                  (\<lambda>u w1. updateChildren update create domEl oldChildren newChildren w1)
            | _ \<Rightarrow> throwError TypeError w))"

primrec updateDOMElement :: "env \<Rightarrow> runner \<Rightarrow> nat \<Rightarrow> updater" where
  "updateDOMElement E R 0 = (\<lambda>domEl oldVNode newVNode w. Timeout)"
| "updateDOMElement E R (Suc n) =
     updateDOMElement_step E (createDOMElement E R n) (updateDOMElement E R n)"

section \<open>Mounting, re-rendering, and running scheduled callbacks\<close>

definition mount :: "env \<Rightarrow> runner \<Rightarrow> nat \<Rightarrow> nat \<Rightarrow> nat \<Rightarrow> world \<Rightarrow> unit outcome" where
  "mount E R n c container w =
     bind (render E c w)
       (\<lambda>vnode w1.
          bind (createDOMElement E R n vnode (comp_upd c (\<lambda>k. k\<lparr>prevVNode := vnode\<rparr>) w1))
            (\<lambda>element w2.
               bind (appendChild container element
                       (comp_upd c (\<lambda>k. k\<lparr>domElement := Some element\<rparr>) w2))
                 (\<lambda>u w3. lifecycleHook E R c DidMount (comp_upd c (\<lambda>k. k\<lparr>isMounted := True\<rparr>) w3))))"

definition updateComponent :: "env \<Rightarrow> runner \<Rightarrow> nat \<Rightarrow> nat \<Rightarrow> props \<Rightarrow> world \<Rightarrow> unit outcome" where
  "updateComponent E R n c prevState w =
     (case nth_opt (comps w) c of
        None \<Rightarrow> throwError TypeError w
      | Some inst \<Rightarrow>
          if domElement inst \<noteq> None \<and> truthy (prevVNode inst) \<and> isMounted inst
          then try_catch
                 (bind (lifecycleHook E R c WillUpdate w)
                    (\<lambda>u w1.
                       bind (render E c w1)
                         (\<lambda>newVNode w2.
                            case nth_opt (comps w2) c of
                              None \<Rightarrow> throwError TypeError w2
                            | Some inst2 \<Rightarrow>
                                bind (updateDOMElement E R n (domElement inst2) (prevVNode inst2)
                                        newVNode w2)
                                  (\<lambda>u w3.
                                     lifecycleHook E R c DidUpdate
                                       (comp_upd c (\<lambda>k. k\<lparr>prevVNode := newVNode\<rparr>) w3)))))
                 (\<lambda>error w'. handleError c error w')
          else Return () w)"

text \<open>What the closures made by \<open>setState\<close> and \<open>forceUpdate\<close> do when called.\<close>

definition runCallback_step :: "env \<Rightarrow> runner \<Rightarrow> nat \<Rightarrow> callback \<Rightarrow> world \<Rightarrow> unit outcome" where
  "runCallback_step E R n cb w =
     (case cb of
        SetStateCb c prevState callback \<Rightarrow>
          (case nth_opt (comps w) c of
             None \<Rightarrow> throwError TypeError w
           | Some inst \<Rightarrow>
               bind (if (case shouldComponentUpdate (classes E (cclass inst)) of
                           None \<Rightarrow> True
                         | Some f \<Rightarrow> f (cprops inst) (cstate inst) \<noteq> JBool False)
                     then updateComponent E R n c prevState w
                     else Return () w)
                 (\<lambda>u w1. optional_call (funs E) callback w1))
      | ForceUpdateCb c callback \<Rightarrow>
          (case nth_opt (comps w) c of
             None \<Rightarrow> throwError TypeError w
           | Some inst \<Rightarrow>
               bind (updateComponent E R n c (cstate inst) w)
                 (\<lambda>u w1. optional_call (funs E) callback w1)))"

primrec runCallback :: "env \<Rightarrow> nat \<Rightarrow> runner" where
  "runCallback E 0 = (\<lambda>cb w. Timeout)"
| "runCallback E (Suc n) = runCallback_step E (runCallback E n) n"


section \<open>Vocabulary of the statements\<close>

fun finalWorld :: "'a outcome \<Rightarrow> world option" where
  "finalWorld (Return a w) = Some w"
| "finalWorld (Throw e w) = Some w"
| "finalWorld Timeout = None"

text \<open>What a call added to the trace.\<close>

definition newEvents :: "world \<Rightarrow> 'a outcome \<Rightarrow> event list" where
  "newEvents w r = (case finalWorld r of None \<Rightarrow> [] | Some w' \<Rightarrow> drop (length (trace w)) (trace w'))"




text \<open>\<open>w'\<close> is \<open>w\<close> but for the attributes of node \<open>d\<close> and the delegated handler tables.\<close>

definition attrsFrame :: "nat \<Rightarrow> world \<Rightarrow> world \<Rightarrow> bool" where
  "attrsFrame d w w' =
     (\<exists>as hs ds. w' = (node_upd d (\<lambda>n. n\<lparr>dattrs := as\<rparr>) w)\<lparr>eventHandlers := hs, delegatedEvents := ds\<rparr>)"

definition mountedOnes :: "world \<Rightarrow> nat list \<Rightarrow> nat list" where
  "mountedOnes w cs =
     filter (\<lambda>c. case nth_opt (comps w) c of None \<Rightarrow> False | Some inst \<Rightarrow> isMounted inst) cs"

fun isDidCatch :: "event \<Rightarrow> bool" where
  "isDidCatch (Lifecycle c DidCatch) = True"
| "isDidCatch _ = False"

section \<open>A small application, for the concrete runs\<close>

definition emptyWorld :: world where
  "emptyWorld = \<lparr>nodes = [], comps = [], hookHeap = [], ctxs = [], currentErrorBoundary = None,
     batchedCallbacks = [], isBatchingUpdates = False, nextCallback = 0, currentComponent = None,
     currentHookIndex = 0, eventHandlers = [], delegatedEvents = [], nextObject = 0, trace = []\<rparr>"

function natDigits :: "nat \<Rightarrow> string" where
  "natDigits n =
     (if n < 10 then [char_of (48 + n)] else natDigits (n div 10) @ [char_of (48 + n mod 10)])"
  by pat_completeness auto

termination natDigits
  by (relation "measure id") auto

declare natDigits.simps [simp del]

definition appString :: "jsval \<Rightarrow> string" where
  "appString v =
     (case v of
        JStr s \<Rightarrow> s
      | JUndefined \<Rightarrow> ''undefined''
      | JNull \<Rightarrow> ''null''
      | JBool b \<Rightarrow> (if b then ''true'' else ''false'')
      | JNum i \<Rightarrow> (if i < 0 then CHR ''-'' # natDigits (nat (- i)) else natDigits (nat i))
      | JNaN \<Rightarrow> ''NaN''
      | _ \<Rightarrow> ''[object Object]'')"

text \<open>User functions: 1 throws; 2 is an effect that returns the cleanup 3; 6 is an effect
  that returns the cleanup 1; the others return \<open>undefined\<close>.\<close>

definition appFuns :: funtable where
  "appFuns k args =
     (if k = 1 then Inl (JObj 9) else if k = 2 then Inr (JFun 3)
      else if k = 6 then Inr (JFun 1) else Inr JUndefined)"

definition noHooks :: "lifecycle \<Rightarrow> bool" where
  "noHooks l = False"

text \<open>\<open>Counter\<close> shows \<open>state.count\<close>; \<open>Buggy\<close> throws in \<open>render\<close>; \<open>Boundary\<close> is an error
  boundary with a fallback text and a \<open>componentDidCatch\<close>; \<open>Clicker\<close> is a functional
  component with one state slot; \<open>ThemeProvider\<close> is the \<open>ContextProvider\<close> of context 0;
  \<open>Watcher\<close> is a functional component with one effect; \<open>Leaky\<close> is one whose effect
  leaves a cleanup that throws; \<open>ArrowFunction\<close> is a function that is no class, as
  \<open>Context.Provider\<close> is. The vnode a \<open>render\<close> here returns carries a fixed identity; no
  run below compares two vnodes by reference.\<close>

definition Counter :: cls where
  "Counter = \<lparr>ckind = ClassK, initState = (\<lambda>ps. [(''count'', JNum 0)]),
     renderM = (\<lambda>ps st. Inr (VN 100 (Tag ''p'') [(''title'', get_prop st ''count'')] [] JUndefined)),
     renderFunction = (\<lambda>c w. throwError TypeError w),
     fallbackRender = (\<lambda>e. Inr JUndefined), shouldComponentUpdate = None, hasHook = noHooks\<rparr>"

definition Buggy :: cls where
  "Buggy = Counter\<lparr>renderM := (\<lambda>ps st. Inl (JObj 7))\<rparr>"

definition Boundary :: cls where
  "Boundary = \<lparr>ckind = BoundaryK, initState = (\<lambda>ps. []),
     renderM = (\<lambda>ps st. Inr JUndefined),
     renderFunction = (\<lambda>c w. throwError TypeError w),
     fallbackRender = (\<lambda>e. Inr (VN 101 (Tag ''p'') [] [JStr ''Something went wrong.''] JUndefined)),
     shouldComponentUpdate = None, hasHook = (\<lambda>l. l = DidCatch)\<rparr>"

definition Clicker :: cls where
  "Clicker = \<lparr>ckind = FunctionalK, initState = (\<lambda>ps. []),
     renderM = (\<lambda>ps st. Inr JUndefined),
     renderFunction = (\<lambda>c w. bind (useState appFuns (JNum 0) w)
        (\<lambda>r w'. Return (VN 102 (Tag ''p'') [(''title'', fst r)] [] JUndefined) w')),
     fallbackRender = (\<lambda>e. Inr JUndefined), shouldComponentUpdate = None, hasHook = noHooks\<rparr>"

definition ThemeProvider :: cls where
  "ThemeProvider = Counter\<lparr>ckind := ProviderK 0\<rparr>"

definition Watcher :: cls where
  "Watcher = Clicker\<lparr>renderFunction := (\<lambda>c w. bind (useEffect appFuns (JFun 2) (Some [JNum 1]) w)
        (\<lambda>u w'. Return (VN 103 (Tag ''p'') [] [] JUndefined) w'))\<rparr>"

definition Leaky :: cls where
  "Leaky = Clicker\<lparr>renderFunction := (\<lambda>c w. bind (useEffect appFuns (JFun 6) (Some [JNum 1]) w)
        (\<lambda>u w'. Return (VN 104 (Tag ''p'') [] [] JUndefined) w'))\<rparr>"

definition ArrowFunction :: cls where
  "ArrowFunction = Counter\<lparr>ckind := NotComponent\<rparr>"

text \<open>The vnode of \<open><ThemeContext.Provider value="dark">page</ThemeContext.Provider>\<close>: its
  type is the arrow function (7 in the class table). \<open>ThemeToggler\<close> is a class component
  that renders it.\<close>

definition providerElement :: jsval where
  "providerElement = createElement 40 (Cls 7) (Some [(''value'', JStr ''dark'')]) [JStr ''page'']"

definition ThemeToggler :: cls where
  "ThemeToggler = Counter\<lparr>initState := (\<lambda>ps. []), renderM := (\<lambda>ps st. Inr providerElement)\<rparr>"

definition appClasses :: "nat \<Rightarrow> cls" where
  "appClasses k =
     (if k = 0 then Counter else if k = 1 then Buggy else if k = 2 then Boundary
      else if k = 3 then Clicker else if k = 4 then ThemeProvider
      else if k = 5 then Watcher else if k = 6 then Leaky
      else if k = 8 then ThemeToggler else ArrowFunction)"

definition app :: env where
  "app = \<lparr>classes = appClasses, funs = appFuns, jsString = appString\<rparr>"

definition appRunner :: runner where
  "appRunner = runCallback app 8"

text \<open>A fresh instance of class \<open>k\<close> with props \<open>ps\<close>, mounted under a fresh container.\<close>

definition mountNew :: "nat \<Rightarrow> props \<Rightarrow> world \<Rightarrow> unit outcome" where
  "mountNew k ps w =
     (let (container, w1) = createElementNode ''div'' w
      in bind (new_component app k ps w1)
           (\<lambda>c w2. mount app appRunner 8 c container w2))"

text \<open>Two \<open>setState\<close> calls in a row on instance 0.\<close>

definition twoSetStates :: "world \<Rightarrow> unit outcome" where
  "twoSetStates w =
     bind (setState appRunner 0 [(''count'', JNum 1)] JUndefined w)
       (\<lambda>u w'. setState appRunner 0 [(''count'', JNum 2)] JUndefined w')"

text \<open>A keyed list item and a list; the first argument is the identity of the vnode built.
  The vnodes the classes above render carry the identities 100 and up.\<close>

definition li :: "nat \<Rightarrow> int \<Rightarrow> string \<Rightarrow> jsval" where
  "li ident k s = createElement ident (Tag ''li'') (Some [(''key'', JNum k), (''id'', JStr s)]) [JStr s]"

definition ul :: "nat \<Rightarrow> jsval list \<Rightarrow> jsval" where
  "ul ident items = createElement ident (Tag ''ul'') None items"

text \<open>An error boundary around \<open>child\<close>, passed as the \<open>children\<close> prop.\<close>

definition boundaryAround :: "nat \<Rightarrow> jsval \<Rightarrow> jsval" where
  "boundaryAround ident child = VN ident (Cls 2) [(''children'', child)] [] JUndefined"

definition buggyChild :: jsval where
  "buggyChild = VN 20 (Cls 1) [] [] JUndefined"

text \<open>A world in which an outer boundary instance is the current error boundary.\<close>

definition insideOuterBoundary :: world where
  "insideOuterBoundary =
     (case new_component app 2 [] emptyWorld of
        Return b w \<Rightarrow> w\<lparr>currentErrorBoundary := Some b\<rparr>
      | _ \<Rightarrow> emptyWorld)"

text \<open>A world with context 0 (value \<open>light\<close>) and a mounted \<open>Counter\<close> (instance 0)
  subscribed to it; and the same world with, in addition, a \<open>ThemeProvider\<close> instance
  (instance 1) whose \<open>value\<close> prop is \<open>dark\<close>.\<close>

definition subscribedWorld :: world where
  "subscribedWorld =
     (case mountNew 0 [] (emptyWorld\<lparr>ctxs := [\<lparr>currentValue = JStr ''light'', subscribers = []\<rparr>]\<rparr>) of
        Return u w \<Rightarrow> subscribe 0 0 w
      | _ \<Rightarrow> emptyWorld)"

definition themedWorld :: world where
  "themedWorld =
     (case new_component app 4 [(''value'', JStr ''dark''), (''children'', JStr ''page'')]
             subscribedWorld of
        Return p w' \<Rightarrow> w'
      | _ \<Rightarrow> emptyWorld)"



text \<open>A live childless \<open>p\<close> element (node 1) under a container.\<close>

definition paragraphWorld :: world where
  "paragraphWorld =
     (case mountNew 0 [] emptyWorld of Return u w \<Rightarrow> w | _ \<Rightarrow> emptyWorld)"

text \<open>A function that sets state on instance 0 and then throws.\<close>

definition setThenThrow :: "world \<Rightarrow> unit outcome" where
  "setThenThrow w =
     bind (setState appRunner 0 [(''count'', JNum 1)] JUndefined w) (\<lambda>u w'. Throw (JObj 5) w')"



text \<open>The \<open>ThemeProvider\<close> instance of \<open>themedWorld\<close>.\<close>

definition themeProviderInstance :: comp where
  "themeProviderInstance =
     \<lparr>cclass = 4, cprops = [(''value'', JStr ''dark''), (''children'', JStr ''page'')], cstate = [],
      domElement = None, prevVNode = JNull, isMounted = False, errorBoundary = None,
      hooksArr = None\<rparr>"

section \<open>Node builder and positional pairing\<close>



section \<open>The batch wrapper\<close>

lemma runImmediate_never_throws: "runImmediate R cb w \<noteq> Throw e w'"
  by (simp add: runImmediate_def try_catch_def split: outcome.splits)

lemma runEach_never_throws: "runEach R cs w \<noteq> Throw e w'"
proof (induction cs arbitrary: w)
  case Nil
  then show ?case by simp
next
  case (Cons c cs)
  show ?case
  proof (cases "runImmediate R (snd c) w")
    case Timeout
    then show ?thesis by (simp add: bind_def)
  next
    case (Throw x y)
    then show ?thesis using runImmediate_never_throws by blast
  next
    case (Return u w1)
    then show ?thesis using Cons.IH by (simp add: bind_def)
  qed
qed

lemma flush_runs_pending: "flush R w = runEach R (batchedCallbacks w) (w\<lparr>batchedCallbacks := []\<rparr>)"
  by (cases "batchedCallbacks w") (simp_all add: flush_def)

lemma batchEnd_never_throws: "batchEnd R w \<noteq> Throw e w'"
  by (simp add: batchEnd_def flush_runs_pending runEach_never_throws)

text \<open>
  C9. A wrapped function runs in the world \<open>batchStart\<close> leaves, where the batching flag is
  set. Whether it returns or throws, \<open>batchEnd\<close> then runs on the world the function
  left: the flag is cleared and every pending callback is run (the flush). \<open>batchEnd\<close>
  itself never throws, so the wrapper returns what the function returned, or rethrows
  what it threw, once the flush is done.
\<close>

theorem wrap_runs_batchEnd_always:
  "isBatchingUpdates (batchStart w)
   \<and> wrap R fn w =
       (case fn (batchStart w) of
          Timeout \<Rightarrow> Timeout
        | Return a w1 \<Rightarrow> (case batchEnd R w1 of Return u w2 \<Rightarrow> Return a w2 | _ \<Rightarrow> Timeout)
        | Throw e w1 \<Rightarrow> (case batchEnd R w1 of Return u w2 \<Rightarrow> Throw e w2 | _ \<Rightarrow> Timeout))
   \<and> (\<forall>e' w''. batchEnd R w' \<noteq> Throw e' w'')
   \<and> batchEnd R w' =
       runEach R (batchedCallbacks w') (w'\<lparr>isBatchingUpdates := False, batchedCallbacks := []\<rparr>)"
proof -
  have a: "isBatchingUpdates (batchStart w)" by (simp add: batchStart_def)
  have b: "batchEnd R w' =
     runEach R (batchedCallbacks w') (w'\<lparr>isBatchingUpdates := False, batchedCallbacks := []\<rparr>)"
    by (simp add: batchEnd_def flush_runs_pending)
  have c: "wrap R fn w =
     (case fn (batchStart w) of
        Timeout \<Rightarrow> Timeout
      | Return a w1 \<Rightarrow> (case batchEnd R w1 of Return u w2 \<Rightarrow> Return a w2 | _ \<Rightarrow> Timeout)
      | Throw e w1 \<Rightarrow> (case batchEnd R w1 of Return u w2 \<Rightarrow> Throw e w2 | _ \<Rightarrow> Timeout))"
    using batchEnd_never_throws
    by (auto simp: wrap_def try_finally_def bind_def split: outcome.splits)
  from a b c batchEnd_never_throws show ?thesis by blast
qed

text \<open>The wrapper around \<open>setThenThrow\<close>: the update the function queued is still flushed
  (one render, the title becomes 1), and the exception comes out afterwards.\<close>

theorem wrap_runs_batchEnd_always_witness:
  "(case wrap appRunner setThenThrow paragraphWorld of
      Throw e w2 \<Rightarrow> Some (e, isBatchingUpdates w2, batchedCallbacks w2,
                          newEvents paragraphWorld (Throw e w2), dattrs (nodes w2 ! 1))
    | _ \<Rightarrow> None)
   = Some (JObj 5, False, [], [Render 0], [(''title'', ''1'')])"
proof -
  have f: "setThenThrow (batchStart paragraphWorld) =
             Throw (JObj 5) (the (finalWorld (setThenThrow (batchStart paragraphWorld))))"
    by code_simp
  from wrap_runs_batchEnd_always [of paragraphWorld appRunner setThenThrow]
  have "wrap appRunner setThenThrow paragraphWorld =
       (case setThenThrow (batchStart paragraphWorld) of
          Timeout \<Rightarrow> Timeout
        | Return a w1 \<Rightarrow> (case batchEnd appRunner w1 of Return u w2 \<Rightarrow> Return a w2 | _ \<Rightarrow> Timeout)
        | Throw e w1 \<Rightarrow> (case batchEnd appRunner w1 of Return u w2 \<Rightarrow> Throw e w2 | _ \<Rightarrow> Timeout))"
    by blast
  then have "wrap appRunner setThenThrow paragraphWorld =
       (case batchEnd appRunner (the (finalWorld (setThenThrow (batchStart paragraphWorld)))) of
          Return u w2 \<Rightarrow> Throw (JObj 5) w2 | _ \<Rightarrow> Timeout)"
    by (subst (asm) f) simp
  moreover have "(case (case batchEnd appRunner (the (finalWorld (setThenThrow (batchStart paragraphWorld)))) of
          Return u w2 \<Rightarrow> Throw (JObj 5) w2 | _ \<Rightarrow> Timeout) of
      Throw e w2 \<Rightarrow> Some (e, isBatchingUpdates w2, batchedCallbacks w2,
                          newEvents paragraphWorld (Throw e w2), dattrs (nodes w2 ! 1))
    | _ \<Rightarrow> None)
   = Some (JObj 5, False, [], [Render 0], [(''title'', ''1'')])"
    by code_simp
  ultimately show ?thesis by simp
qed

section \<open>Effects\<close>













section \<open>Patching a childless node\<close>


lemma dattrs_same: "n\<lparr>dattrs := dattrs n\<rparr> = n"
  by (cases n) simp





lemma attrsFrame_handlers: "attrsFrame d w (w\<lparr>eventHandlers := hs\<rparr>)"
  and attrsFrame_add: "attrsFrame d w (EventDelegator_addEventListener el ev h w)"
  and attrsFrame_remove: "attrsFrame d w (EventDelegator_removeEventListener el ev w)"
proof -
  have r: "w = node_upd d (\<lambda>n. n\<lparr>dattrs := dattrs (nodes w ! d)\<rparr>) w"
    by (simp add: node_upd_def dattrs_same)
  have k: "\<And>hs ds. attrsFrame d w (w\<lparr>eventHandlers := hs, delegatedEvents := ds\<rparr>)"
    unfolding attrsFrame_def using r by metis
  show "attrsFrame d w (w\<lparr>eventHandlers := hs\<rparr>)"
    using k [where hs = hs and ds = "delegatedEvents w"] by simp
  have "EventDelegator_addEventListener el ev h w =
          w\<lparr>eventHandlers := aset (ev, el) h (eventHandlers w),
            delegatedEvents := (if ev \<in> set (delegatedEvents w) then delegatedEvents w
                                else delegatedEvents w @ [ev])\<rparr>"
    by (simp add: EventDelegator_addEventListener_def Let_def)
  then show "attrsFrame d w (EventDelegator_addEventListener el ev h w)"
    using k by metis
  show "attrsFrame d w (EventDelegator_removeEventListener el ev w)"
    using k [where hs = "filter (\<lambda>(k, h). k \<noteq> (ev, el)) (eventHandlers w)" and ds = "delegatedEvents w"]
    by (simp add: EventDelegator_removeEventListener_def)
qed










section \<open>The context provider\<close>

lemma forceUpdateEach_batching:
  assumes "isBatchingUpdates w"
    and "\<forall>c\<in>set subs. c < length (comps w)"
    and "\<forall>i\<in>fst ` set (batchedCallbacks w). i < nextCallback w"
  shows "\<exists>w'. forceUpdateEach R subs w = Return () w'
            \<and> comps w' = comps w \<and> ctxs w' = ctxs w \<and> trace w' = trace w
            \<and> map snd (batchedCallbacks w') =
                map snd (batchedCallbacks w) @ map (\<lambda>c. ForceUpdateCb c JUndefined) (mountedOnes w subs)"
  using assms
proof (induction subs arbitrary: w)
  case Nil
  then show ?case by (simp add: mountedOnes_def)
next
  case (Cons c rest)
  from Cons.prems(2) have clt: "c < length (comps w)" by simp
  then have inst: "nth_opt (comps w) c = Some (comps w ! c)" by (simp add: nth_opt_def)
  let ?w1 = "if isMounted (comps w ! c)
             then w\<lparr>nextCallback := Suc (nextCallback w),
                    batchedCallbacks := batchedCallbacks w @ [(nextCallback w, ForceUpdateCb c JUndefined)]\<rparr>
             else w"
  have fresh: "nextCallback w \<notin> fst ` set (batchedCallbacks w)"
    using Cons.prems(3) by auto
  have step: "forceUpdate R c JUndefined w = Return () ?w1"
    using Cons.prems(1) inst fresh
    by (simp add: forceUpdate_def scheduleUpdate_def set_add_def)
  have p1: "isBatchingUpdates ?w1" using Cons.prems(1) by simp
  have p2: "\<forall>c\<in>set rest. c < length (comps ?w1)" using Cons.prems(2) by simp
  have p3: "\<forall>i\<in>fst ` set (batchedCallbacks ?w1). i < nextCallback ?w1"
    using Cons.prems(3) by (auto simp: less_Suc_eq)
  from Cons.IH [OF p1 p2 p3] obtain w' where
    r: "forceUpdateEach R rest ?w1 = Return () w'"
    and k: "comps w' = comps ?w1" "ctxs w' = ctxs ?w1" "trace w' = trace ?w1"
    and b: "map snd (batchedCallbacks w') =
              map snd (batchedCallbacks ?w1) @ map (\<lambda>c. ForceUpdateCb c JUndefined) (mountedOnes ?w1 rest)"
    by blast
  have m: "mountedOnes ?w1 rest = mountedOnes w rest" by (simp add: mountedOnes_def)
  have "forceUpdateEach R (c # rest) w = Return () w'" using step r by (simp add: bind_def)
  moreover have "map snd (batchedCallbacks w') =
      map snd (batchedCallbacks w) @ map (\<lambda>c. ForceUpdateCb c JUndefined) (mountedOnes w (c # rest))"
    using b m inst by (simp add: mountedOnes_def)
  ultimately show ?case using k by auto
qed

text \<open>Outside a batching window a mounted subscriber's \<open>forceUpdate\<close> runs its update at
  once, under the scheduler's catch.\<close>

lemma forceUpdate_immediate:
  "\<not> isBatchingUpdates w \<Longrightarrow> nth_opt (comps w) c = Some inst \<Longrightarrow> isMounted inst \<Longrightarrow>
   forceUpdate R c cb w = runImmediate R (ForceUpdateCb c cb) (w\<lparr>nextCallback := Suc (nextCallback w)\<rparr>)"
  by (simp add: forceUpdate_def scheduleUpdate_def)

text \<open>
  What the two hooks of a \<open>ContextProvider\<close> instance \<open>p\<close> of context \<open>x\<close> do when they are
  called: if the \<open>value\<close> prop differs by \<open>!==\<close> from the context's current value, the
  value is written and then \<open>forceUpdate\<close> is called on every subscriber, in subscription
  order, before the hook returns; otherwise nothing happens. With a batching window
  open (and a well-formed pending set) that ends with the new value in place and one
  update queued per mounted subscriber.
\<close>

lemma providerHook_writes_and_notifies:
  assumes inst: "nth_opt (comps w) p = Some inst"
    and prov: "ckind (classes E (cclass inst)) = ProviderK x"
    and hook: "l = DidMount \<or> l = DidUpdate"
  shows "lifecycleHook E R p l w =
           (if strict_neq (getValue w x) (get_prop (cprops inst) ''value'')
            then forceUpdateEach R (subscribersOf w x)
                   (ctx_upd x (\<lambda>c. c\<lparr>currentValue := get_prop (cprops inst) ''value''\<rparr>) w)
            else Return () w)
       \<and> (strict_neq (getValue w x) (get_prop (cprops inst) ''value'') \<and> x < length (ctxs w)
            \<and> isBatchingUpdates w
            \<and> (\<forall>c\<in>set (subscribersOf w x). c < length (comps w))
            \<and> (\<forall>i\<in>fst ` set (batchedCallbacks w). i < nextCallback w)
          \<longrightarrow> (\<exists>w'. lifecycleHook E R p l w = Return () w'
                 \<and> getValue w' x = get_prop (cprops inst) ''value''
                 \<and> map snd (batchedCallbacks w') =
                     map snd (batchedCallbacks w) @
                     map (\<lambda>c. ForceUpdateCb c JUndefined) (mountedOnes w (subscribersOf w x))))"
proof -
  let ?v = "get_prop (cprops inst) ''value''"
  let ?w1 = "ctx_upd x (\<lambda>c. c\<lparr>currentValue := ?v\<rparr>) w"
  have subs: "subscribersOf ?w1 x = subscribersOf w x"
    by (auto simp: subscribersOf_def ctx_upd_def nth_opt_def)
  have eq: "lifecycleHook E R p l w =
           (if strict_neq (getValue w x) ?v then forceUpdateEach R (subscribersOf w x) ?w1
            else Return () w)"
    using assms subs
    by (auto simp: lifecycleHook_def updateContextValue_def setValue_def notify_def Let_def)
  have "\<exists>w'. lifecycleHook E R p l w = Return () w' \<and> getValue w' x = ?v
           \<and> map snd (batchedCallbacks w') =
               map snd (batchedCallbacks w) @
               map (\<lambda>c. ForceUpdateCb c JUndefined) (mountedOnes w (subscribersOf w x))"
    if d: "strict_neq (getValue w x) ?v" and xl: "x < length (ctxs w)"
      and b: "isBatchingUpdates w"
      and s: "\<forall>c\<in>set (subscribersOf w x). c < length (comps w)"
      and f: "\<forall>i\<in>fst ` set (batchedCallbacks w). i < nextCallback w"
  proof -
    have k: "comps ?w1 = comps w" "batchedCallbacks ?w1 = batchedCallbacks w"
      "nextCallback ?w1 = nextCallback w" "isBatchingUpdates ?w1 = isBatchingUpdates w"
      by (simp_all add: ctx_upd_def)
    have b1: "isBatchingUpdates ?w1" using b k by simp
    have s1: "\<forall>c\<in>set (subscribersOf w x). c < length (comps ?w1)" using s k by simp
    have f1: "\<forall>i\<in>fst ` set (batchedCallbacks ?w1). i < nextCallback ?w1" using f k by simp
    from forceUpdateEach_batching [OF b1 s1 f1, of R] obtain w' where
      r: "forceUpdateEach R (subscribersOf w x) ?w1 = Return () w'"
      and c: "ctxs w' = ctxs ?w1"
      and q: "map snd (batchedCallbacks w') =
                map snd (batchedCallbacks ?w1) @
                map (\<lambda>c. ForceUpdateCb c JUndefined) (mountedOnes ?w1 (subscribersOf w x))"
      by blast
    have m: "mountedOnes ?w1 (subscribersOf w x) = mountedOnes w (subscribersOf w x)"
      by (simp add: mountedOnes_def k)
    have "getValue w' x = ?v" using c xl by (simp add: getValue_def ctx_upd_def nth_opt_def)
    then show ?thesis using eq d r q m k by simp
  qed
  with eq show ?thesis by blast
qed

text \<open>The \<open>ThemeProvider\<close> instance 1 (value \<open>dark\<close>) against context 0 (value \<open>light\<close>, subscriber
  0, a mounted \<open>Counter\<close>). Its \<open>componentDidMount\<close> writes \<open>dark\<close> and re-renders the
  subscriber at once; inside a batching window the re-render is queued instead; and
  \<open>Component.mount\<close> on the instance, which calls the hook as its last step, ends the same
  way.\<close>

lemma providerHook_on_mounted_instance:
  "nth_opt (comps themedWorld) 1 = Some themeProviderInstance
   \<and> ckind (classes app (cclass themeProviderInstance)) = ProviderK 0
   \<and> strict_neq (getValue themedWorld 0) (get_prop (cprops themeProviderInstance) ''value'')
   \<and> subscribersOf themedWorld 0 = [0]
   \<and> lifecycleHook app appRunner 1 DidMount themedWorld =
       forceUpdateEach appRunner [0] (ctx_upd 0 (\<lambda>c. c\<lparr>currentValue := JStr ''dark''\<rparr>) themedWorld)
   \<and> (case lifecycleHook app appRunner 1 DidMount themedWorld of
         Return u w' \<Rightarrow> Some (getValue w' 0, newEvents themedWorld (Return () w'))
       | _ \<Rightarrow> None) = Some (JStr ''dark'', [Render 0])
   \<and> (case lifecycleHook app appRunner 1 DidUpdate (batchStart themedWorld) of
         Return u w' \<Rightarrow> Some (getValue w' 0, batchedCallbacks w')
       | _ \<Rightarrow> None) = Some (JStr ''dark'', [(0, ForceUpdateCb 0 JUndefined)])
   \<and> (case mount app appRunner 8 1 0 themedWorld of
         Return u w' \<Rightarrow> Some (getValue w' 0, newEvents themedWorld (Return () w'))
       | _ \<Rightarrow> None) = Some (JStr ''dark'', [Render 1, Render 0])"
proof -
  have a: "nth_opt (comps themedWorld) 1 = Some themeProviderInstance" by code_simp
  have b: "ckind (classes app (cclass themeProviderInstance)) = ProviderK 0" by code_simp
  have c: "strict_neq (getValue themedWorld 0) (get_prop (cprops themeProviderInstance) ''value'')"
    by code_simp
  have d: "subscribersOf themedWorld 0 = [0]" by code_simp
  have v: "get_prop (cprops themeProviderInstance) ''value'' = JStr ''dark''" by code_simp
  have "DidMount = DidMount \<or> DidMount = DidUpdate" by simp
  from providerHook_writes_and_notifies [OF a b this, of appRunner] c d v
  have e: "lifecycleHook app appRunner 1 DidMount themedWorld =
       forceUpdateEach appRunner [0] (ctx_upd 0 (\<lambda>c. c\<lparr>currentValue := JStr ''dark''\<rparr>) themedWorld)"
    by simp
  have f: "(case lifecycleHook app appRunner 1 DidMount themedWorld of
         Return u w' \<Rightarrow> Some (getValue w' 0, newEvents themedWorld (Return () w'))
       | _ \<Rightarrow> None) = Some (JStr ''dark'', [Render 0])" by code_simp
  have g: "(case lifecycleHook app appRunner 1 DidUpdate (batchStart themedWorld) of
         Return u w' \<Rightarrow> Some (getValue w' 0, batchedCallbacks w')
       | _ \<Rightarrow> None) = Some (JStr ''dark'', [(0, ForceUpdateCb 0 JUndefined)])" by code_simp
  have h: "(case mount app appRunner 8 1 0 themedWorld of
         Return u w' \<Rightarrow> Some (getValue w' 0, newEvents themedWorld (Return () w'))
       | _ \<Rightarrow> None) = Some (JStr ''dark'', [Render 1, Render 0])" by code_simp
  from a b c d e f g h show ?thesis by simp
qed

text \<open>
  C7. A provider element in a tree: \<open><ThemeContext.Provider value="dark">page</...>\<close>, with
  context 0 holding \<open>light\<close> and a mounted subscriber (instance 0), so the supplied value
  differs from the current one. The element's type is \<open>Context.Provider\<close>, an arrow
  function. Materializing the element, alone or as what a mounted \<open>ThemeToggler\<close>
  renders, ends in the \<open>TypeError\<close> of \<open>new\<close> on that function: the context still holds
  \<open>light\<close> and the subscriber is not re-rendered. Calling the arrow function with the props
  builds a \<open>ContextProvider\<close> and calls its \<open>render\<close> only: it returns the children, the
  context still holds \<open>light\<close>, no update is run or queued. And an element whose type is
  the \<open>ContextProvider\<close> class itself is materialized by \<open>createComponent\<close>, which calls
  \<open>render\<close> and no mount hook: again the context still holds \<open>light\<close>.
\<close>

theorem provider_element_never_writes_context:
  "getValue subscribedWorld 0 = JStr ''light''
   \<and> subscribersOf subscribedWorld 0 = [0]
   \<and> mountedOnes subscribedWorld [0] = [0]
   \<and> providerElement = VN 40 (Cls 7) [(''value'', JStr ''dark'')] [JStr ''page''] JUndefined
   \<and> strict_neq (getValue subscribedWorld 0) (get_prop [(''value'', JStr ''dark'')] ''value'')
   \<and> (case createDOMElement app appRunner 8 providerElement subscribedWorld of
         Throw e w' \<Rightarrow> Some (e, getValue w' 0, newEvents subscribedWorld (Return () w'),
                             batchedCallbacks w')
       | _ \<Rightarrow> None) = Some (ErrObj 0 TypeError, JStr ''light'', [], [])
   \<and> (case mountNew 8 [] subscribedWorld of
         Throw e w' \<Rightarrow> Some (e, getValue w' 0, newEvents subscribedWorld (Return () w'),
                             batchedCallbacks w')
       | _ \<Rightarrow> None) = Some (ErrObj 0 TypeError, JStr ''light'', [Render 1], [])
   \<and> (case Provider app 4 [(''value'', JStr ''dark''), (''children'', JStr ''page'')]
                subscribedWorld of
         Return v w' \<Rightarrow> Some (v, getValue w' 0, newEvents subscribedWorld (Return () w'),
                              batchedCallbacks w')
       | _ \<Rightarrow> None) = Some (JStr ''page'', JStr ''light'', [Render 1], [])
   \<and> (case createDOMElement app appRunner 8
                (VN 41 (Cls 4) [(''value'', JStr ''dark''), (''children'', JStr ''page'')] []
                   JUndefined)
                subscribedWorld of
         Return d w' \<Rightarrow> Some (getValue w' 0, newEvents subscribedWorld (Return () w'),
                              batchedCallbacks w')
       | _ \<Rightarrow> None) = Some (JStr ''light'', [Render 1], [])"
proof -
  have a: "getValue subscribedWorld 0 = JStr ''light''" by code_simp
  have b: "subscribersOf subscribedWorld 0 = [0]" by code_simp
  have c: "mountedOnes subscribedWorld [0] = [0]" by code_simp
  have d: "providerElement = VN 40 (Cls 7) [(''value'', JStr ''dark'')] [JStr ''page''] JUndefined"
    by code_simp
  have e: "strict_neq (getValue subscribedWorld 0) (get_prop [(''value'', JStr ''dark'')] ''value'')"
    by code_simp
  have f: "(case createDOMElement app appRunner 8 providerElement subscribedWorld of
         Throw e w' \<Rightarrow> Some (e, getValue w' 0, newEvents subscribedWorld (Return () w'),
                             batchedCallbacks w')
       | _ \<Rightarrow> None) = Some (ErrObj 0 TypeError, JStr ''light'', [], [])" by code_simp
  have g: "(case mountNew 8 [] subscribedWorld of
         Throw e w' \<Rightarrow> Some (e, getValue w' 0, newEvents subscribedWorld (Return () w'),
                             batchedCallbacks w')
       | _ \<Rightarrow> None) = Some (ErrObj 0 TypeError, JStr ''light'', [Render 1], [])" by code_simp
  have h: "(case Provider app 4 [(''value'', JStr ''dark''), (''children'', JStr ''page'')]
                subscribedWorld of
         Return v w' \<Rightarrow> Some (v, getValue w' 0, newEvents subscribedWorld (Return () w'),
                              batchedCallbacks w')
       | _ \<Rightarrow> None) = Some (JStr ''page'', JStr ''light'', [Render 1], [])" by code_simp
  have i: "(case createDOMElement app appRunner 8
                (VN 41 (Cls 4) [(''value'', JStr ''dark''), (''children'', JStr ''page'')] []
                   JUndefined)
                subscribedWorld of
         Return d w' \<Rightarrow> Some (getValue w' 0, newEvents subscribedWorld (Return () w'),
                              batchedCallbacks w')
       | _ \<Rightarrow> None) = Some (JStr ''light'', [Render 1], [])" by code_simp
  from a b c d e f g h i show ?thesis by simp
qed

section \<open>Batched state updates\<close>

text \<open>Inside a batching window every \<open>setState\<close> call queues a closure of its own: the
  closure is new, so the pending set never holds it already.\<close>

lemma setState_batching_queues_new_closure:
  assumes "isBatchingUpdates w"
    and "nth_opt (comps w) c = Some inst"
    and "\<forall>i\<in>fst ` set (batchedCallbacks w). i < nextCallback w"
  shows "setState R c newState cb w =
           Return ()
             ((comp_upd c (\<lambda>k. k\<lparr>cstate := spread (cstate k) newState\<rparr>) w)
                \<lparr>nextCallback := Suc (nextCallback w),
                 batchedCallbacks :=
                   batchedCallbacks w @ [(nextCallback w, SetStateCb c (cstate inst) cb)]\<rparr>)"
proof -
  have "nextCallback w \<notin> fst ` set (batchedCallbacks w)" using assms(3) by auto
  then show ?thesis
    using assms(1,2)
    by (simp add: setState_def scheduleUpdate_def set_add_def comp_upd_def Let_def)
qed

text \<open>
  C1. A mounted \<open>Counter\<close>; two \<open>setState\<close> calls in a row inside one batching window (the
  wrapper's). At the end of the two calls the pending set holds two callbacks (0 and
  1), and the flush of \<open>batchEnd\<close> renders the component twice: two render and patch
  cycles, where the claim has one.
\<close>

theorem two_setStates_in_one_batch_render_twice:
  "(case mountNew 0 [] emptyWorld of
      Return u w \<Rightarrow>
        (case twoSetStates (batchStart w) of
           Return u1 w1 \<Rightarrow>
             (case wrap appRunner twoSetStates w of
                Return u2 w2 \<Rightarrow>
                  Some (map fst (batchedCallbacks w1),
                        count_list (newEvents w1 (batchEnd appRunner w1)) (Render 0),
                        count_list (newEvents w (Return () w2)) (Render 0))
              | _ \<Rightarrow> None)
         | _ \<Rightarrow> None)
    | _ \<Rightarrow> None) = Some ([0, 1], 2, 2)"
  by code_simp

section \<open>Keyed children\<close>

text \<open>
  C2. A live list materialized from the keyed children \<open>[A, B, C]\<close> and patched to
  \<open>[C, A, B]\<close>. No display node is created and the three live nodes are the ones that
  were there, but their order is unchanged: the two moves the diff makes are
  \<open>insertBefore(childNodes[0], childNodes[1])\<close> and \<open>insertBefore(childNodes[1],
  childNodes[2])\<close>, which move nothing. The live list still reads A, B, C.
\<close>

theorem keyed_reorder_leaves_live_order:
  "(case createDOMElement app appRunner 8 (ul 0 [li 1 1 ''A'', li 2 2 ''B'', li 3 3 ''C'']) emptyWorld of
      Return d w \<Rightarrow>
        (case updateDOMElement app appRunner 8 (Some d)
                (ul 0 [li 1 1 ''A'', li 2 2 ''B'', li 3 3 ''C''])
                (ul 10 [li 13 3 ''C'', li 11 1 ''A'', li 12 2 ''B'']) w of
           Return u w' \<Rightarrow>
             Some (childNodes w d, childNodes w' d, length (nodes w') - length (nodes w),
                   map (\<lambda>k. dattrs (nodes w' ! k)) (childNodes w' d))
         | _ \<Rightarrow> None)
    | _ \<Rightarrow> None)
   = Some ([1, 3, 5], [1, 3, 5], 0, [[(''id'', ''A'')], [(''id'', ''B'')], [(''id'', ''C'')]])"
  by code_simp

section \<open>The state setter\<close>

text \<open>A setter call with a next value given directly: the slot is overwritten iff the
  value differs from the current one by \<open>!==\<close>, and then \<open>forceUpdate\<close> is called on whatever
  instance the render cursor names at that moment, if it names one.\<close>

lemma stateSetter_writes_iff_differs:
  assumes "nth_opt (hookHeap w) h = Some hk"
    and "\<forall>k. newValue \<noteq> JFun k"
  shows "stateSetter F R h newValue w =
           (if strict_neq newValue (hvalue hk)
            then (case currentComponent w of
                    None \<Rightarrow> Return () (hook_upd h (\<lambda>k. k\<lparr>hvalue := newValue\<rparr>) w)
                  | Some c \<Rightarrow> forceUpdate R c JUndefined (hook_upd h (\<lambda>k. k\<lparr>hvalue := newValue\<rparr>) w))
            else Return () w)"
proof -
  have nf: "(case newValue of JFun k \<Rightarrow> call F newValue [hvalue hk] w | _ \<Rightarrow> Return newValue w)
              = Return newValue w"
    using assms(2) by (cases newValue) auto
  have "currentComponent (hook_upd h (\<lambda>k. k\<lparr>hvalue := newValue\<rparr>) w) = currentComponent w"
    by (simp add: hook_upd_def)
  then show ?thesis using assms(1) nf by (simp add: stateSetter_def bind_def Let_def)
qed

text \<open>A functional component's \<open>render\<close> leaves the render cursor cleared, and a setter
  called while the cursor is cleared writes the slot and schedules nothing.\<close>

lemma functional_render_clears_cursor:
  assumes "nth_opt (comps w) c = Some inst"
    and "ckind (classes E (cclass inst)) = FunctionalK"
    and "render E c w = Return v w'"
  shows "currentComponent w' = None"
  using assms
  by (auto simp: render_def Let_def bind_def setCurrentComponent_def split: outcome.splits)

lemma stateSetter_outside_render:
  assumes "currentComponent w = None"
    and "nth_opt (hookHeap w) h = Some hk"
    and "\<forall>k. newValue \<noteq> JFun k"
  shows "stateSetter F R h newValue w =
           Return () (if strict_neq newValue (hvalue hk)
                      then hook_upd h (\<lambda>k. k\<lparr>hvalue := newValue\<rparr>) w else w)"
proof -
  have nf: "(case newValue of JFun k \<Rightarrow> call F newValue [hvalue hk] w | _ \<Rightarrow> Return newValue w)
              = Return newValue w"
    using assms(3) by (cases newValue) auto
  have "currentComponent (hook_upd h (\<lambda>k. k\<lparr>hvalue := newValue\<rparr>) w) = None"
    using assms(1) by (simp add: hook_upd_def)
  then show ?thesis using assms(2) nf by (simp add: stateSetter_def bind_def Let_def)
qed

text \<open>
  C3. A mounted \<open>Clicker\<close> (one state slot, value 0); after the mount the render cursor is
  cleared. The setter of the slot is called with 1, as an event handler would call it.
  The slot's value becomes 1, and that is all: no callback is created, none is
  pending, nothing is rendered, and the last rendered tree still shows 0. The setter
  reads the module's \<open>currentComponent\<close> at the time of the call, which is \<open>null\<close> outside
  a render pass, so the owner's \<open>forceUpdate\<close> is not reached.
\<close>

theorem setter_after_render_schedules_nothing:
  "(case mountNew 3 [] emptyWorld of
      Return u w \<Rightarrow>
        (case stateSetter appFuns appRunner 0 (JNum 1) w of
           Return u' w' \<Rightarrow>
             Some (currentComponent w, map hvalue (hookHeap w), map hvalue (hookHeap w'),
                   batchedCallbacks w', nextCallback w' - nextCallback w, newEvents w (Return () w'),
                   prevVNode (comps w' ! 0))
         | _ \<Rightarrow> None)
    | _ \<Rightarrow> None)
   = Some (None, [JNum 0], [JNum 1], [], 0, [], VN 102 (Tag ''p'') [(''title'', JNum 0)] [] JUndefined)"
  by code_simp

section \<open>Error boundaries\<close>

text \<open>
  C5. An inner error boundary materialized while an outer boundary (instance 0) is the
  current one: afterwards the pointer is \<open>null\<close>, not the outer boundary. So in an outer
  boundary whose subtree holds an inner boundary followed by a component that throws,
  the throwing component is created with no boundary and its error leaves
  \<open>createDOMElement\<close> uncaught.
\<close>

theorem inner_boundary_clears_pointer:
  "(case createDOMElement app appRunner 8 (boundaryAround 23 (JStr ''inner'')) insideOuterBoundary of
      Return d w' \<Rightarrow> Some (currentErrorBoundary insideOuterBoundary, currentErrorBoundary w')
    | _ \<Rightarrow> None) = Some (Some 0, None)
   \<and> (case createDOMElement app appRunner 8
             (boundaryAround 21
                (VN 22 (Tag ''div'') [] [boundaryAround 23 (JStr ''inner''), buggyChild] JUndefined))
             emptyWorld of
        Throw e w' \<Rightarrow> Some (e, map errorBoundary (comps w'))
      | _ \<Rightarrow> None) = Some (JObj 7, [None, Some 0, None])"
  by code_simp

text \<open>
  C6. A boundary whose child throws the error object 7 in \<open>render\<close>. What is materialized
  is the boundary's fallback (a \<open>p\<close> element holding the text), and the boundary's state
  holds the error. The boundary class defines \<open>componentDidCatch\<close>, and it is called
  zero times: nothing in the engine calls that hook.
\<close>

theorem boundary_fallback_without_didCatch:
  "(case createDOMElement app appRunner 8 (boundaryAround 21 buggyChild) emptyWorld of
      Return d w \<Rightarrow>
        Some (dtag (nodes w ! d), map (\<lambda>k. dtext (nodes w ! k)) (childNodes w d),
              get_prop (cstate (comps w ! 0)) ''error'',
              hasHook (classes app 2) DidCatch, length (filter isDidCatch (trace w)))
    | _ \<Rightarrow> None)
   = Some (Some ''p'', [''Something went wrong.''], JObj 7, True, 0)"
  by code_simp

end
